theory Spec2Isabelle
  imports Complex_Main
begin

section \<open>Data model of twittp/model.py\<close>

text \<open>
  Python numbers (unbounded ints and the floats that true division produces) are
  idealised as rationals. Exceptions are values of the type \<open>error\<close>; a function
  that can raise returns \<open>error + 'a\<close> with \<open>Inl\<close> for the exception.
\<close>

datatype error = AttributeError | IndexError | KeyError | TypeError | ValueError
  | ZeroDivisionError

text \<open>class TrendCell: the attributes set by its constructor.\<close>

record TrendCell =
  trending :: bool
  count :: rat
  delta :: rat
  delta_delta :: rat
  avg_followers :: rat
  avg_statuses :: rat
  retweets :: rat

text \<open>\<open>TrendCell(trending)\<close> with every keyword argument at its default 0.\<close>

definition new_cell :: "bool \<Rightarrow> TrendCell" where
  "new_cell t = \<lparr>trending = t, count = 0, delta = 0, delta_delta = 0,
     avg_followers = 0, avg_statuses = 0, retweets = 0\<rparr>"

text \<open>
  class TrendLine. \<open>start_ts\<close> is optional because \<open>from_twitter_trend\<close> can pass
  Python's \<open>None\<close> for it.
\<close>

record TrendLine =
  name :: string
  start_ts :: "int option"
  data :: "TrendCell list"
  window_size :: int

text \<open>class TrendModel: the list \<open>self.trends\<close>.\<close>

type_synonym TrendModel = "TrendLine list"

subsection \<open>TrendCell.distance\<close>

definition cell_distance :: "TrendCell \<Rightarrow> TrendCell \<Rightarrow> rat" where
  "cell_distance self other =
     (count self - count other)\<^sup>2 + (delta self - delta other)\<^sup>2
     + (delta_delta self - delta_delta other)\<^sup>2
     + (avg_followers self - avg_followers other)\<^sup>2
     + (avg_statuses self - avg_statuses other)\<^sup>2
     + (retweets self - retweets other)\<^sup>2"

subsection \<open>Exceptions\<close>

text \<open>
  Sequencing of two computations that may raise: the second one runs only when the
  first one returned.
\<close>

definition bind_err :: "error + 'a \<Rightarrow> ('a \<Rightarrow> error + 'b) \<Rightarrow> error + 'b" where
  "bind_err r f = (case r of Inl e \<Rightarrow> Inl e | Inr v \<Rightarrow> f v)"

text \<open>A \<open>for\<close> loop over a list whose body may raise; an exception ends the loop.\<close>

fun for_each :: "'i list \<Rightarrow> ('i \<Rightarrow> 's \<Rightarrow> error + 's) \<Rightarrow> 's \<Rightarrow> error + 's" where
  "for_each [] body s = Inr s"
| "for_each (i # is) body s = bind_err (body i s) (for_each is body)"

text \<open>A list comprehension whose element expression may raise.\<close>

fun map_err :: "('a \<Rightarrow> error + 'b) \<Rightarrow> 'a list \<Rightarrow> error + 'b list" where
  "map_err f [] = Inr []"
| "map_err f (x # xs) =
     bind_err (f x) (\<lambda>y. bind_err (map_err f xs) (\<lambda>ys. Inr (y # ys)))"

text \<open>Indexing a sequence with a non-negative index.\<close>

definition item :: "'a list \<Rightarrow> nat \<Rightarrow> error + 'a" where
  "item xs i = (if i < length xs then Inr (xs ! i) else Inl IndexError)"

subsection \<open>TrendModel.normalize\<close>

text \<open>Python's \<open>max\<close> of a list raises ValueError on the empty list.\<close>

definition py_max :: "rat list \<Rightarrow> error + rat" where
  "py_max xs = (case xs of [] \<Rightarrow> Inl ValueError | x # ys \<Rightarrow> Inr (fold max ys x))"

text \<open>\<open>m = 1 if m == 0 else m\<close>\<close>

definition one_if_zero :: "rat \<Rightarrow> rat" where
  "one_if_zero m = (if m = 0 then 1 else m)"

text \<open>The body of the outer loop of \<open>normalize\<close>, for one trend.\<close>

definition normalize_line :: "TrendLine \<Rightarrow> error + TrendLine" where
  "normalize_line trend =
     bind_err (py_max (map count (data trend))) (\<lambda>max_count.
     bind_err (py_max (map delta (data trend))) (\<lambda>max_delta.
     bind_err (py_max (map delta_delta (data trend))) (\<lambda>max_delta_delta.
     bind_err (py_max (map avg_followers (data trend))) (\<lambda>max_followers.
     bind_err (py_max (map avg_statuses (data trend))) (\<lambda>max_statuses.
       Inr (trend\<lparr>data := map (\<lambda>datum. datum\<lparr>
              count := count datum / one_if_zero max_count,
              delta := delta datum / one_if_zero max_delta,
              delta_delta := delta_delta datum / one_if_zero max_delta_delta,
              avg_followers := avg_followers datum / one_if_zero max_followers,
              avg_statuses := avg_statuses datum / one_if_zero max_statuses\<rparr>)
            (data trend)\<rparr>))))))"

definition normalize :: "TrendModel \<Rightarrow> error + TrendModel" where
  "normalize trends = map_err normalize_line trends"

subsection \<open>dtw_distance\<close>

text \<open>
  \<open>dtw_distance\<close> is documented as taking two numpy arrays and reads \<open>a.size\<close> and
  \<open>b.size\<close>. A sequence that reaches it is a Python list or a one-dimensional numpy
  array: both are indexed alike, but only the array has the attribute \<open>size\<close>, and
  reading it from a list raises AttributeError. The \<open>data\<close> of a TrendLine is a
  Python list wherever model.py builds one.
\<close>

datatype 'a pyseq = PyList "'a list" | NdArray "'a list"

definition elements :: "'a pyseq \<Rightarrow> 'a list" where
  "elements s = (case s of PyList xs \<Rightarrow> xs | NdArray xs \<Rightarrow> xs)"

definition size_attr :: "'a pyseq \<Rightarrow> error + nat" where
  "size_attr s = (case s of PyList xs \<Rightarrow> Inl AttributeError | NdArray xs \<Rightarrow> Inr (length xs))"

text \<open>
  The table \<open>np.zeros((n, m))\<close> is a list of \<open>n\<close> rows of \<open>m\<close> entries; reading or
  writing outside of it raises IndexError, as does reading outside of \<open>a\<close> or \<open>b\<close>.
  The bodies of the loops take the elements of \<open>a\<close> and \<open>b\<close>.
\<close>

type_synonym table = "rat list list"

definition zeros :: "nat \<Rightarrow> nat \<Rightarrow> table" where
  "zeros n m = replicate n (replicate m 0)"

definition tget :: "table \<Rightarrow> nat \<Rightarrow> nat \<Rightarrow> error + rat" where
  "tget dtw i j = bind_err (item dtw i) (\<lambda>row. item row j)"

definition tset :: "table \<Rightarrow> nat \<Rightarrow> nat \<Rightarrow> rat \<Rightarrow> error + table" where
  "tset dtw i j v =
     (if i < length dtw \<and> j < length (dtw ! i) then Inr (dtw[i := (dtw ! i)[j := v]])
      else Inl IndexError)"

text \<open>\<open>dtw[i][j] = a[i].distance(b[j]) + dtw[i - 1][j]\<close> with \<open>j = 0\<close>\<close>

definition dtw_column_step :: "TrendCell list \<Rightarrow> TrendCell list \<Rightarrow> nat \<Rightarrow> table \<Rightarrow> error + table" where
  "dtw_column_step a b i dtw =
     (if i = 0 then Inr dtw
      else bind_err (item a i) (\<lambda>ai. bind_err (item b 0) (\<lambda>bj.
           bind_err (tget dtw (i - 1) 0) (\<lambda>up.
           tset dtw i 0 (cell_distance ai bj + up)))))"

text \<open>\<open>dtw[i][j] = a[i].distance(b[j]) + dtw[i][j - 1]\<close> with \<open>i = 0\<close>\<close>

definition dtw_row_step :: "TrendCell list \<Rightarrow> TrendCell list \<Rightarrow> nat \<Rightarrow> table \<Rightarrow> error + table" where
  "dtw_row_step a b j dtw =
     (if j = 0 then Inr dtw
      else bind_err (item a 0) (\<lambda>ai. bind_err (item b j) (\<lambda>bj.
           bind_err (tget dtw 0 (j - 1)) (\<lambda>left.
           tset dtw 0 j (cell_distance ai bj + left)))))"

text \<open>
  \<open>dtw[i][j] = a[i].distance(b[j]) + min(dtw[i - 1][j], dtw[i][j - 1], dtw[i - 1][j - 1])\<close>
\<close>

definition dtw_inner_step :: "TrendCell list \<Rightarrow> TrendCell list \<Rightarrow> nat \<Rightarrow> nat \<Rightarrow> table \<Rightarrow> error + table" where
  "dtw_inner_step a b i j dtw =
     (if j = 0 then Inr dtw
      else bind_err (item a i) (\<lambda>ai. bind_err (item b j) (\<lambda>bj.
           bind_err (tget dtw (i - 1) j) (\<lambda>up.
           bind_err (tget dtw i (j - 1)) (\<lambda>left.
           bind_err (tget dtw (i - 1) (j - 1)) (\<lambda>diag.
           tset dtw i j (cell_distance ai bj + min up (min left diag))))))))"

definition dtw_outer_step :: "TrendCell list \<Rightarrow> TrendCell list \<Rightarrow> nat \<Rightarrow> table \<Rightarrow> error + table" where
  "dtw_outer_step a b i dtw =
     (if i = 0 then Inr dtw else for_each [0..<length b] (dtw_inner_step a b i) dtw)"

text \<open>
  The three loops in the order of the source. The second loop runs over \<open>range(n)\<close>,
  as the source has it.
\<close>

definition dtw_distance :: "TrendCell pyseq \<Rightarrow> TrendCell pyseq \<Rightarrow> error + rat" where
  "dtw_distance a b =
     bind_err (size_attr a) (\<lambda>n.
     bind_err (size_attr b) (\<lambda>m.
     bind_err (tset (zeros n m) 0 0 0) (\<lambda>dtw.
     bind_err (for_each [0..<n] (dtw_column_step (elements a) (elements b)) dtw) (\<lambda>dtw.
     bind_err (for_each [0..<n] (dtw_row_step (elements a) (elements b)) dtw) (\<lambda>dtw.
     bind_err (for_each [0..<n] (dtw_outer_step (elements a) (elements b)) dtw) (\<lambda>dtw.
     tget dtw (n - 1) (m - 1)))))))"

text \<open>
  The cost table in the words of the specification: \<open>D[0][0] = 0\<close>, the first row and
  the first column accumulate the cell distances along their axis, and the other
  entries add the cell distance to the minimum of the three neighbours.
\<close>

fun spec_D :: "TrendCell list \<Rightarrow> TrendCell list \<Rightarrow> nat \<Rightarrow> nat \<Rightarrow> rat" where
  "spec_D A B 0 0 = 0"
| "spec_D A B (Suc i) 0 = cell_distance (A ! Suc i) (B ! 0) + spec_D A B i 0"
| "spec_D A B 0 (Suc j) = cell_distance (A ! 0) (B ! Suc j) + spec_D A B 0 j"
| "spec_D A B (Suc i) (Suc j) =
     cell_distance (A ! Suc i) (B ! Suc j)
     + min (spec_D A B i (Suc j)) (min (spec_D A B (Suc i) j) (spec_D A B i j))"

subsection \<open>TrendLine.distance\<close>

text \<open>The inner loop: the total of the cell distances at one offset.\<close>

definition offset_total :: "TrendCell list \<Rightarrow> TrendCell list \<Rightarrow> nat \<Rightarrow> rat" where
  "offset_total self other offset =
     fold (\<lambda>i total. total + cell_distance (self ! i) (other ! (offset + i)))
       [0..<length self] 0"

text \<open>The outer loop, for \<open>len(self.data) <= len(other.data)\<close>, where every index is in range.\<close>

definition min_over_offsets :: "TrendCell list \<Rightarrow> TrendCell list \<Rightarrow> rat option" where
  "min_over_offsets self other =
     fold (\<lambda>offset min_distance.
             let total = offset_total self other offset in
             case min_distance of None \<Rightarrow> Some total
             | Some d \<Rightarrow> if d > total then Some total else Some d)
       [0..<length other - length self + 1] None"

text \<open>\<open>x.distance(y)\<close> on the cell sequences of the two lines; \<open>None\<close> is Python's \<open>None\<close>.\<close>

definition distance :: "TrendCell list \<Rightarrow> TrendCell list \<Rightarrow> rat option" where
  "distance self other =
     (if length self > length other then min_over_offsets other self
      else min_over_offsets self other)"

text \<open>\<open>TrendLine.trending\<close>\<close>

definition line_trending :: "TrendLine \<Rightarrow> bool" where
  "line_trending self = list_ex trending (data self)"

subsection \<open>TrendModel.leave_one_out\<close>

text \<open>
  \<open>trend.data.trending\<close>: \<open>trend.data\<close> is the sequence of cells, and a sequence
  (a Python list as well as a numpy array) has no attribute \<open>trending\<close>.
\<close>

definition data_trending :: "TrendCell list \<Rightarrow> error + bool" where
  "data_trending cells = Inl AttributeError"

text \<open>
  The inner loop over \<open>j\<close>. \<open>match\<close> and \<open>min_distance\<close> are set together, so
  the pair is one optional value. The rows of \<open>mat\<close> are the lists \<open>trend.data\<close>.
\<close>

definition match_step :: "nat \<Rightarrow> TrendCell list \<Rightarrow> nat \<times> TrendCell list \<Rightarrow> (nat \<times> rat) option
    \<Rightarrow> error + (nat \<times> rat) option" where
  "match_step i trend_a jb best =
     (case jb of (j, trend_b) \<Rightarrow>
        if i = j then Inr best
        else bind_err (dtw_distance (PyList trend_a) (PyList trend_b)) (\<lambda>dist.
          case best of None \<Rightarrow> Inr (Some (j, dist))
          | Some (match, min_distance) \<Rightarrow>
              if dist < min_distance then Inr (Some (j, dist))
              else Inr (Some (match, min_distance))))"

text \<open>The counters \<open>(true_positives, true_negatives, false_positives, false_negatives)\<close>.\<close>

type_synonym counters = "nat \<times> nat \<times> nat \<times> nat"

definition classify :: "nat \<Rightarrow> nat \<Rightarrow> counters \<Rightarrow> counters" where
  "classify a_trend match_trend c =
     (case c of (tp, tn, fp, fn) \<Rightarrow>
        if a_trend = 1 \<and> match_trend = 1 then (tp + 1, tn, fp, fn)
        else if a_trend = 1 \<and> match_trend = 0 then (tp, tn, fp, fn + 1)
        else if a_trend = 0 \<and> match_trend = 1 then (tp, tn, fp + 1, fn)
        else (tp, tn + 1, fp, fn))"

text \<open>The body of the loop over \<open>i\<close>; \<open>y[match]\<close> with \<open>match = None\<close> is a TypeError.\<close>

definition evaluate_step :: "TrendCell list list \<Rightarrow> nat list \<Rightarrow> nat \<times> TrendCell list \<Rightarrow> counters
    \<Rightarrow> error + counters" where
  "evaluate_step mat y ia c =
     (case ia of (i, trend_a) \<Rightarrow>
        bind_err (for_each (enumerate 0 mat) (match_step i trend_a) None) (\<lambda>best.
        bind_err (item y i) (\<lambda>a_trend.
        case best of None \<Rightarrow> Inl TypeError
        | Some (match, min_distance) \<Rightarrow>
            bind_err (item y match) (\<lambda>match_trend.
            Inr (classify a_trend match_trend c)))))"

definition py_divide :: "nat \<Rightarrow> nat \<Rightarrow> error + rat" where
  "py_divide p q = (if q = 0 then Inl ZeroDivisionError else Inr (of_nat p / of_nat q))"

definition leave_one_out :: "TrendModel \<Rightarrow> error + rat \<times> rat" where
  "leave_one_out trends =
     bind_err (normalize trends) (\<lambda>trends.
     let mat = map data trends in
     bind_err (map_err (\<lambda>trend. data_trending (data trend)) trends) (\<lambda>flags.
     let y = map (\<lambda>flag. if flag then 1 else 0) flags in
     bind_err (for_each (enumerate 0 mat) (evaluate_step mat y) (0, 0, 0, 0)) (\<lambda>c.
     case c of (tp, tn, fp, fn) \<Rightarrow>
       bind_err (py_divide tp (tp + fp)) (\<lambda>precision.
       bind_err (py_divide tp (tp + fn)) (\<lambda>recall.
       Inr (precision, recall))))))"

subsection \<open>TrendLine.from_twitter_trend\<close>

text \<open>class TwitterTrend of twittp/twitter.py: a name and the announced timestamps.\<close>

record TwitterTrend =
  trend_name :: string
  timestamps :: "int list"

text \<open>The local variables of \<open>from_twitter_trend\<close>.\<close>

record run_state =
  longest_consecutive :: nat
  start_longest :: "int option"
  start_consecutive :: "int option"
  current_consecutive :: nat
  last_timestamp :: "int option"

definition run_init :: run_state where
  "run_init = \<lparr>longest_consecutive = 0, start_longest = None, start_consecutive = None,
     current_consecutive = 0, last_timestamp = None\<rparr>"

text \<open>
  The body of the loop over the timestamps. \<open>last_timestamp + window_size\<close> with
  \<open>last_timestamp = None\<close> is a TypeError.
\<close>

definition run_step :: "int \<Rightarrow> int \<Rightarrow> run_state \<Rightarrow> error + run_state" where
  "run_step window ts s =
     bind_err
       (case start_consecutive s of
          None \<Rightarrow> Inr (s\<lparr>start_consecutive := Some ts, current_consecutive := 1\<rparr>)
        | Some sc \<Rightarrow>
            (case last_timestamp s of
               None \<Rightarrow> Inl TypeError
             | Some l \<Rightarrow>
                 if ts = l + window then
                   Inr (s\<lparr>current_consecutive := current_consecutive s + 1\<rparr>)
                 else if start_longest s = None then
                   Inr (s\<lparr>start_longest := start_consecutive s,
                          longest_consecutive := current_consecutive s\<rparr>)
                 else if longest_consecutive s < current_consecutive s then
                   Inr (s\<lparr>start_longest := start_consecutive s,
                          longest_consecutive := current_consecutive s\<rparr>)
                 else
                   Inr (s\<lparr>start_consecutive := None, current_consecutive := 0\<rparr>)))
       (\<lambda>s. Inr (s\<lparr>last_timestamp := Some ts\<rparr>))"

definition from_twitter_trend :: "TwitterTrend \<Rightarrow> int \<Rightarrow> error + TrendLine" where
  "from_twitter_trend twitter_trend window =
     bind_err (for_each (timestamps twitter_trend) (run_step window) run_init) (\<lambda>s.
     Inr \<lparr>name = trend_name twitter_trend, start_ts = start_longest s,
          data = replicate (longest_consecutive s) (new_cell True),
          window_size = window\<rparr>)"

subsection \<open>TrendModel.model_from_files: the positive lines\<close>

definition TREND_PREEMT :: nat where
  "TREND_PREEMT = 90"

definition MINIMUM_TREND_SIZE :: nat where
  "MINIMUM_TREND_SIZE = 15"

text \<open>
  The body of the padding loop. \<open>trend.start_ts - ...\<close> with \<open>start_ts = None\<close> is a
  TypeError.
\<close>

definition preempt :: "TrendLine \<Rightarrow> error + TrendLine" where
  "preempt trend =
     (let preempt_cells = replicate TREND_PREEMT (new_cell False) @ data trend in
      case start_ts trend of
        None \<Rightarrow> Inl TypeError
      | Some s \<Rightarrow>
          Inr (trend\<lparr>data := preempt_cells,
                 start_ts := Some (s - window_size trend * int TREND_PREEMT)\<rparr>))"

text \<open>
  The lines of \<open>model_from_files\<close> from the list of TwitterTrends to the padded
  positive lines; \<open>from_twitter_trend\<close> is called with its default window of 120.
\<close>

definition derive_positive :: "TwitterTrend list \<Rightarrow> error + TrendLine list" where
  "derive_positive twitter_trends = map_err (\<lambda>trend. from_twitter_trend trend 120) twitter_trends"

definition remove_short :: "TrendLine list \<Rightarrow> TrendLine list" where
  "remove_short positive_trends =
     filter (\<lambda>trend. length (data trend) \<ge> MINIMUM_TREND_SIZE) positive_trends"

definition positive_lines :: "TwitterTrend list \<Rightarrow> error + TrendLine list" where
  "positive_lines twitter_trends =
     bind_err (derive_positive twitter_trends) (\<lambda>ps. map_err preempt (remove_short ps))"

subsection \<open>TrendLine.populate_from_file: the second pass\<close>

text \<open>
  The body of the loop over \<open>index\<close> for one trend, on the state
  \<open>(trend.data, first, second)\<close>. The cell is first averaged, then its deltas are
  set; \<open>trend.data[index - 1]\<close> is the predecessor as the loop left it. In the two
  branches that read it \<open>index\<close> is positive. The cells of a line are distinct
  objects that no other line shares, as \<open>model_from_files\<close> builds them, so the
  loop over one line is a function of the cells of that line.
\<close>

definition average :: "TrendCell \<Rightarrow> TrendCell" where
  "average datum =
     (if count datum > 0 then
        datum\<lparr>avg_followers := avg_followers datum / count datum,
              avg_statuses := avg_statuses datum / count datum,
              retweets := retweets datum / count datum\<rparr>
      else datum)"

definition second_pass_step :: "nat \<Rightarrow> TrendCell list \<times> bool \<times> bool \<Rightarrow> TrendCell list \<times> bool \<times> bool" where
  "second_pass_step index st =
     (case st of (cells, first, second) \<Rightarrow>
        let datum = average (cells ! index) in
        if first then
          (cells[index := datum\<lparr>delta := 0, delta_delta := 0\<rparr>], False, True)
        else if second then
          (cells[index := datum\<lparr>delta := count datum - count (cells ! (index - 1)),
                                delta_delta := 0\<rparr>], first, False)
        else
          (let d = count datum - count (cells ! (index - 1)) in
           (cells[index := datum\<lparr>delta := d,
                                 delta_delta := d - delta (cells ! (index - 1))\<rparr>],
            first, second)))"

definition second_pass :: "TrendCell list \<Rightarrow> TrendCell list" where
  "second_pass cells = fst (fold second_pass_step [0..<length cells] (cells, True, False))"

subsection \<open>from_obj: reconstruction from the persisted representation\<close>

text \<open>
  The objects that \<open>json.loads\<close> produces. A dict is an association list;
  \<open>JNull\<close> is Python's \<open>None\<close>.
\<close>

datatype json = JNull | JBool bool | JNum rat | JStr string | JList "json list"
  | JDict "(string \<times> json) list"

text \<open>
  What \<open>from_obj\<close> builds. The constructors store their arguments unchecked, so
  the attributes are arbitrary Python values; a list may hold \<open>None\<close> where an inner
  \<open>from_obj\<close> returned it.
\<close>

datatype cell_obj = CellObj json json json json json json json

datatype line_obj = LineObj json json "cell_obj option list" json

datatype model_obj = ModelObj "line_obj option list"

text \<open>\<open>obj.get(key)\<close>: only a dict has the method; a missing key gives \<open>None\<close>.\<close>

definition py_get :: "json \<Rightarrow> string \<Rightarrow> error + json" where
  "py_get obj key =
     (case obj of
        JDict kvs \<Rightarrow> Inr (case map_of kvs key of None \<Rightarrow> JNull | Some v \<Rightarrow> v)
      | _ \<Rightarrow> Inl AttributeError)"

text \<open>\<open>obj[key]\<close> with a string key: KeyError on a dict without the key.\<close>

definition py_subscript :: "json \<Rightarrow> string \<Rightarrow> error + json" where
  "py_subscript obj key =
     (case obj of
        JDict kvs \<Rightarrow> (case map_of kvs key of None \<Rightarrow> Inl KeyError | Some v \<Rightarrow> Inr v)
      | _ \<Rightarrow> Inl TypeError)"

text \<open>Iterating an object: a list gives its items, a dict its keys, a string its characters.\<close>

definition py_iter :: "json \<Rightarrow> error + json list" where
  "py_iter obj =
     (case obj of
        JList xs \<Rightarrow> Inr xs
      | JDict kvs \<Rightarrow> Inr (map (\<lambda>kv. JStr (fst kv)) kvs)
      | JStr s \<Rightarrow> Inr (map (\<lambda>c. JStr [c]) s)
      | _ \<Rightarrow> Inl TypeError)"

text \<open>
  The guard \<open>obj.get(k1) is None or obj.get(k2) is None or ...\<close>, evaluated from
  left to right.
\<close>

fun any_missing :: "json \<Rightarrow> string list \<Rightarrow> error + bool" where
  "any_missing obj [] = Inr False"
| "any_missing obj (key # keys) =
     bind_err (py_get obj key) (\<lambda>v. if v = JNull then Inr True else any_missing obj keys)"

definition TrendCell_from_obj :: "json \<Rightarrow> error + cell_obj option" where
  "TrendCell_from_obj obj =
     bind_err (any_missing obj [''trending'', ''count'', ''delta'', ''delta_delta'']) (\<lambda>missing.
     if missing then Inr None
     else bind_err (py_subscript obj ''trending'') (\<lambda>v1.
          bind_err (py_subscript obj ''count'') (\<lambda>v2.
          bind_err (py_subscript obj ''delta'') (\<lambda>v3.
          bind_err (py_subscript obj ''delta_delta'') (\<lambda>v4.
          bind_err (py_subscript obj ''avg_followers'') (\<lambda>v5.
          bind_err (py_subscript obj ''avg_statuses'') (\<lambda>v6.
          bind_err (py_subscript obj ''retweets'') (\<lambda>v7.
          Inr (Some (CellObj v1 v2 v3 v4 v5 v6 v7))))))))))"

definition TrendLine_from_obj :: "json \<Rightarrow> error + line_obj option" where
  "TrendLine_from_obj obj =
     bind_err (any_missing obj [''name'', ''window_size'', ''data'', ''start_ts'']) (\<lambda>missing.
     if missing then Inr None
     else bind_err (py_subscript obj ''name'') (\<lambda>name.
          bind_err (py_subscript obj ''window_size'') (\<lambda>window_size.
          bind_err (py_subscript obj ''start_ts'') (\<lambda>start_ts.
          bind_err (py_subscript obj ''data'') (\<lambda>d.
          bind_err (py_iter d) (\<lambda>cells.
          bind_err (map_err TrendCell_from_obj cells) (\<lambda>data.
          Inr (Some (LineObj name start_ts data window_size)))))))))"

definition TrendModel_from_obj :: "json \<Rightarrow> error + model_obj option" where
  "TrendModel_from_obj obj =
     bind_err (any_missing obj [''trends'']) (\<lambda>missing.
     if missing then Inr None
     else bind_err (py_subscript obj ''trends'') (\<lambda>ts.
          bind_err (py_iter ts) (\<lambda>lines.
          bind_err (map_err TrendLine_from_obj lines) (\<lambda>trends.
          Inr (Some (ModelObj trends))))))"

subsection \<open>BagOfWords.random_trend_names (twittp/twitter.py)\<close>

text \<open>
  A \<open>BagOfWords\<close> is a \<open>Counter\<close>: the words with their counts, in insertion order.
\<close>

type_synonym BagOfWords = "(string \<times> int) list"

text \<open>
  \<open>self.most_common(1)[0]\<close>: the first item, in insertion order, whose count is
  maximal; on an empty counter \<open>most_common(1)\<close> is the empty list and \<open>[0]\<close> raises
  IndexError.
\<close>

definition most_common_1 :: "BagOfWords \<Rightarrow> error + string \<times> int" where
  "most_common_1 self =
     (case self of
        [] \<Rightarrow> Inl IndexError
      | first # rest \<Rightarrow>
          Inr (fold (\<lambda>kv best. if snd kv > snd best then kv else best) rest first))"

text \<open>\<open>self[new_trend] = 0\<close> for a word that is in the counter.\<close>

definition set_zero :: "BagOfWords \<Rightarrow> string \<Rightarrow> BagOfWords" where
  "set_zero self word = map (\<lambda>kv. if fst kv = word then (word, 0) else kv) self"

text \<open>
  The values that the membership tests compare. \<open>positive_trends\<close> is the list of
  TrendLine objects that \<open>construct_negative_trends\<close> passes in, and \<open>new_trend\<close> is a
  string; TrendLine defines no equality, so a string never equals a TrendLine.
\<close>

datatype pyval = PyStr string | PyTrendLine TrendLine

text \<open>
  The \<open>while True\<close> loop, which returns the chosen word and the updated counter;
  \<open>None\<close> stands for a loop that never ends. \<open>negative_names\<close> is a set of strings,
  kept here as a list without duplicates.
\<close>

partial_function (option) choose_name ::
    "TrendLine list \<Rightarrow> string list \<Rightarrow> BagOfWords \<Rightarrow> (error + string \<times> BagOfWords) option" where
  "choose_name positive_trends negative_names self =
     (case most_common_1 self of
        Inl e \<Rightarrow> Some (Inl e)
      | Inr (new_trend, cnt) \<Rightarrow>
          (let self' = set_zero self new_trend in
           if PyStr new_trend \<notin> set (map PyTrendLine positive_trends)
              \<and> new_trend \<notin> set negative_names
           then Some (Inr (new_trend, self'))
           else choose_name positive_trends negative_names self'))"

text \<open>The loop \<open>for i in range(n)\<close>, on the state \<open>(negative_names, self)\<close>.\<close>

fun names_loop ::
    "nat \<Rightarrow> TrendLine list \<Rightarrow> string list \<Rightarrow> BagOfWords \<Rightarrow> (error + string list) option" where
  "names_loop 0 positive_trends negative_names self = Some (Inr negative_names)"
| "names_loop (Suc k) positive_trends negative_names self =
     (case choose_name positive_trends negative_names self of
        None \<Rightarrow> None
      | Some (Inl e) \<Rightarrow> Some (Inl e)
      | Some (Inr (new_trend, self')) \<Rightarrow>
          names_loop k positive_trends (List.insert new_trend negative_names) self')"

text \<open>
  \<open>random_trend_names(positive_trends, n)\<close>. The lists \<open>words\<close> and \<open>weights\<close>
  that the method builds first are never read and are left out. The result
  \<open>list(negative_names)\<close> lists the set in an order that Python does not fix; the
  model lists it in insertion order.
\<close>

definition random_trend_names :: "BagOfWords \<Rightarrow> TrendLine list \<Rightarrow> nat \<Rightarrow> (error + string list) option" where
  "random_trend_names self positive_trends n = names_loop n positive_trends [] self"

section \<open>Notions used in the proofs\<close>

text \<open>
  The closed form of the second pass, the shape of the table of \<open>dtw_distance\<close> with
  the bound on its diagonal that the loops maintain, the invariant of the loop of
  \<open>from_twitter_trend\<close>, and the relation between a positive line and its padded
  version.
\<close>

definition expected_delta :: "TrendCell list \<Rightarrow> nat \<Rightarrow> rat" where
  "expected_delta cells i = (if i = 0 then 0 else count (cells ! i) - count (cells ! (i - 1)))"

definition expected_cell :: "TrendCell list \<Rightarrow> nat \<Rightarrow> TrendCell" where
  "expected_cell cells i =
     (average (cells ! i))\<lparr>delta := expected_delta cells i,
        delta_delta := (if i < 2 then 0 else expected_delta cells i - expected_delta cells (i - 1))\<rparr>"

definition wf_table :: "nat \<Rightarrow> nat \<Rightarrow> table \<Rightarrow> bool" where
  "wf_table n m dtw = (length dtw = n \<and> (\<forall>i < n. length (dtw ! i) = m))"

definition diagonal_cost :: "TrendCell list \<Rightarrow> TrendCell list \<Rightarrow> nat \<Rightarrow> rat" where
  "diagonal_cost a b k = (\<Sum>l = 1..k. cell_distance (a ! l) (b ! l))"

definition diagonal_bounded :: "TrendCell list \<Rightarrow> TrendCell list \<Rightarrow> nat \<Rightarrow> nat \<Rightarrow> nat \<Rightarrow> table \<Rightarrow> bool" where
  "diagonal_bounded a b n i j dtw =
     (wf_table n n dtw \<and> dtw ! 0 ! 0 = 0
      \<and> (\<forall>k. 1 \<le> k \<and> k < n \<and> (k < i \<or> (k = i \<and> k < j)) \<longrightarrow> dtw ! k ! k \<le> diagonal_cost a b k))"

definition run_ok :: "run_state \<Rightarrow> bool" where
  "run_ok s = ((start_consecutive s \<noteq> None \<longrightarrow> last_timestamp s \<noteq> None)
     \<and> (start_longest s = None \<longrightarrow> longest_consecutive s = 0))"

definition padded :: "TrendLine \<Rightarrow> TrendLine \<Rightarrow> bool" where
  "padded p r =
     (data r = replicate 90 \<lparr>trending = False, count = 0, delta = 0, delta_delta = 0,
                  avg_followers = 0, avg_statuses = 0, retweets = 0\<rparr> @ data p
      \<and> name r = name p \<and> window_size r = window_size p
      \<and> (\<exists>s. start_ts p = Some s \<and> start_ts r = Some (s - window_size p * 90)))"

section \<open>Evaluations of the code at concrete inputs\<close>

text \<open>
  Claim C1: after \<open>normalize\<close> every normalized feature of every cell lies in
  \<open>[0,1]\<close>. The code divides by the maximum of the line, so a negative feature stays
  negative. For a line whose counts are 0, 2, 0 the second pass of the population
  computes the deltas 0, 2, -2 and the second differences 0, 0, -4; normalization
  turns them into 0, 1, -1 and 0, 0, -4, outside of the unit interval.
\<close>

theorem normalize_negative_delta:
  "normalize [\<lparr>name = ''t'', start_ts = Some 0,
       data = second_pass [new_cell False, (new_cell False)\<lparr>count := 2\<rparr>, new_cell False],
       window_size = 120\<rparr>]
   = Inr [\<lparr>name = ''t'', start_ts = Some 0,
       data = [new_cell False,
               (new_cell False)\<lparr>count := 1, delta := 1\<rparr>,
               (new_cell False)\<lparr>delta := - 1, delta_delta := - 4\<rparr>],
       window_size = 120\<rparr>]"
  by code_simp

text \<open>
  Claim C2: \<open>leave_one_out\<close> returns precision and recall for a model with a trending
  and a non-trending line. On the scenario of the specification (one line of five
  cells labelled true, one line of five cells labelled false) the code raises
  AttributeError when it builds the label vector and returns nothing.
\<close>

theorem leave_one_out_raises:
  "leave_one_out
     [\<lparr>name = ''p'', start_ts = Some 0, data = replicate 5 (new_cell True), window_size = 120\<rparr>,
      \<lparr>name = ''q'', start_ts = Some 0, data = replicate 5 (new_cell False), window_size = 120\<rparr>]
   = Inl AttributeError"
  by code_simp

text \<open>
  Claim C3: \<open>dtw_distance(A, B)\<close> is the entry \<open>D[n-1][m-1]\<close> of the cost table of
  the specification. For an array of one cell against an array of two cells the code
  returns 0, the untouched initial entry of the first row, where the table of the
  specification has 1.
\<close>

theorem dtw_distance_differs_from_table:
  "dtw_distance (NdArray [new_cell False])
       (NdArray [new_cell False, (new_cell False)\<lparr>count := 1\<rparr>]) = Inr 0
   \<and> spec_D [new_cell False] [new_cell False, (new_cell False)\<lparr>count := 1\<rparr>] 0 1 = 1"
  by code_simp

text \<open>
  Claim C4: both distances are symmetric. The full-warp distance is not: on two
  arrays, with the shorter one first the code returns a number, with the longer one
  first it raises IndexError.
\<close>

theorem dtw_distance_not_symmetric:
  "dtw_distance (NdArray [new_cell False])
       (NdArray [new_cell False, (new_cell False)\<lparr>count := 1\<rparr>]) = Inr 0
   \<and> dtw_distance (NdArray [new_cell False, (new_cell False)\<lparr>count := 1\<rparr>])
       (NdArray [new_cell False]) = Inl IndexError"
  by code_simp

text \<open>
  Claim C5, as stated, fails: for two lines whose data are arrays of two and of three
  cells the full-warp distance is 25 and the sliding-offset distance is 0.
\<close>

theorem dtw_above_sliding_counterexample:
  "dtw_distance (NdArray [new_cell False, new_cell False])
       (NdArray [new_cell False, new_cell False, (new_cell False)\<lparr>count := 5\<rparr>]) = Inr 25
   \<and> distance [new_cell False, new_cell False]
       [new_cell False, new_cell False, (new_cell False)\<lparr>count := 5\<rparr>] = Some 0
   \<and> \<not> (25 :: rat) \<le> 0"
  by code_simp

text \<open>
  When the first sequence is a Python list, as the data of every line that model.py
  builds, \<open>dtw_distance\<close> returns nothing: reading \<open>a.size\<close> raises AttributeError.
\<close>

lemma dtw_distance_of_list: "dtw_distance (PyList a) b = Inl AttributeError"
  by (simp add: dtw_distance_def size_attr_def bind_err_def)

text \<open>
  The table of the specification has the same entry 25 for these two sequences, so the
  value does not come from the bound of the loop over the first row.
\<close>

lemma spec_table_above_sliding:
  "spec_D [new_cell False, new_cell False]
       [new_cell False, new_cell False, (new_cell False)\<lparr>count := 5\<rparr>] 1 2 = 25"
  by code_simp

text \<open>
  Claim C6: \<open>from_twitter_trend\<close> returns a line as long as the longest run of
  consecutive timestamps, starting at the first timestamp of that run. For the
  timestamps 0, 120, 240, one run of three windows, the code returns a line without
  cells whose \<open>start_ts\<close> is \<open>None\<close>: a run is only recorded when a later timestamp
  breaks it.
\<close>

theorem from_twitter_trend_single_run:
  "from_twitter_trend \<lparr>trend_name = ''t'', timestamps = [0, 120, 240]\<rparr> 120
   = Inr \<lparr>name = ''t'', start_ts = None, data = [], window_size = 120\<rparr>"
  by code_simp

text \<open>
  Claim C9: a persisted object with a missing required field is reconstructed as
  \<open>None\<close>. A cell without \<open>avg_followers\<close>, \<open>avg_statuses\<close> and \<open>retweets\<close> passes
  the guard of \<open>TrendCell.from_obj\<close>, which tests four of the seven fields, and the
  lookup of \<open>avg_followers\<close> raises KeyError.
\<close>

theorem cell_from_obj_raises:
  "TrendCell_from_obj (JDict [(''trending'', JBool True), (''count'', JNum 0),
       (''delta'', JNum 0), (''delta_delta'', JNum 0)])
   = Inl KeyError"
  by code_simp

text \<open>
  A line whose only cell lacks every field is reconstructed as a line that holds
  \<open>None\<close> in place of the cell.
\<close>

lemma line_from_obj_keeps_absent_cell:
  "TrendLine_from_obj (JDict [(''name'', JStr ''t''), (''window_size'', JNum 120),
       (''start_ts'', JNum 0), (''data'', JList [JDict []])])
   = Inr (Some (LineObj (JStr ''t'') (JNum 0) [None] (JNum 120)))"
  by code_simp

text \<open>
  Claim C10: no name returned by \<open>random_trend_names\<close> is the name of a positive
  trend. With the words foo (twice) and bar (once) in the bag, a positive trend named
  foo and one name asked for, the code returns foo although bar is free: the
  membership test compares the word with the TrendLine objects, never with their
  names.
\<close>

theorem random_trend_names_collides:
  "random_trend_names [(''foo'', 2), (''bar'', 1)]
     [\<lparr>name = ''foo'', start_ts = Some 0, data = [], window_size = 120\<rparr>] 1
   = Some (Inr [''foo''])"
  by (simp add: random_trend_names_def choose_name.simps most_common_1_def set_zero_def)

section \<open>Basic facts about exceptions, loops and tables\<close>

lemma bind_err_simps [simp]:
  "bind_err (Inr v) f = f v" "bind_err (Inl e) f = Inl e"
  by (simp_all add: bind_err_def)

lemma cell_distance_nonneg: "0 \<le> cell_distance x y"
  by (simp add: cell_distance_def)

lemma cell_distance_commute: "cell_distance x y = cell_distance y x"
  by (simp add: cell_distance_def power2_commute)

lemma for_each_append:
  "for_each (xs @ ys) body s = bind_err (for_each xs body s) (for_each ys body)"
  by (induction xs arbitrary: s) (auto simp: bind_err_def split: sum.splits)

lemma for_each_upt_invariant:
  assumes init: "P 0 s"
    and step: "\<And>i t. i < n \<Longrightarrow> P i t \<Longrightarrow> \<exists>t'. body i t = Inr t' \<and> P (Suc i) t'"
  shows "\<exists>t. for_each [0..<n] body s = Inr t \<and> P n t"
proof -
  have "k \<le> n \<Longrightarrow> \<exists>t. for_each [0..<k] body s = Inr t \<and> P k t" for k
  proof (induction k)
    case 0
    then show ?case using init by simp
  next
    case (Suc k)
    then obtain t where t: "for_each [0..<k] body s = Inr t" "P k t" by auto
    from Suc.prems have "k < n" by simp
    from step[OF this t(2)] obtain t' where "body k t = Inr t'" "P (Suc k) t'" by auto
    with t show ?case by (simp add: for_each_append)
  qed
  then show ?thesis by simp
qed

lemma wf_zeros: "wf_table n m (zeros n m)"
  by (simp add: wf_table_def zeros_def)

lemma tget_in_range:
  "wf_table n m dtw \<Longrightarrow> i < n \<Longrightarrow> j < m \<Longrightarrow> tget dtw i j = Inr (dtw ! i ! j)"
  by (simp add: tget_def item_def wf_table_def)

lemma tset_in_range:
  assumes "wf_table n m dtw" "i < n" "j < m"
  shows "\<exists>dtw'. tset dtw i j v = Inr dtw' \<and> wf_table n m dtw'
           \<and> (\<forall>i' < n. \<forall>j' < m. dtw' ! i' ! j' = (if i' = i \<and> j' = j then v else dtw ! i' ! j'))"
  using assms by (auto simp: tset_def wf_table_def nth_list_update)

lemma item_in_range: "i < length xs \<Longrightarrow> item xs i = Inr (xs ! i)"
  by (simp add: item_def)

section \<open>The second pass of the population\<close>

lemma count_average: "count (average c) = count c"
  by (simp add: average_def)

lemma update_at_boundary:
  "k < length cells \<Longrightarrow> length xs = k \<Longrightarrow> (xs @ drop k cells)[k := v] = xs @ v # drop (Suc k) cells"
  by (simp add: list_update_append flip: Cons_nth_drop_Suc)

lemma second_pass_prefix:
  "k \<le> length cells \<Longrightarrow>
   fold second_pass_step [0..<k] (cells, True, False)
   = (map (expected_cell cells) [0..<k] @ drop k cells, k = 0, k = 1)"
proof (induction k)
  case 0
  then show ?case by simp
next
  case (Suc k)
  then have k: "k < length cells" by simp
  let ?xs = "map (expected_cell cells) [0..<k]"
  have here: "(?xs @ drop k cells) ! k = cells ! k"
    using k by (simp add: nth_append)
  have before: "0 < k \<Longrightarrow> (?xs @ drop k cells) ! (k - 1) = expected_cell cells (k - 1)"
    by (simp add: nth_append)
  have upd: "\<And>v. (?xs @ drop k cells)[k := v] = ?xs @ v # drop (Suc k) cells"
    using k by (intro update_at_boundary) simp_all
  have step: "second_pass_step k (?xs @ drop k cells, k = 0, k = 1)
      = (?xs @ expected_cell cells k # drop (Suc k) cells, False, k = 0)"
  proof (cases "k = 0")
    case True
    then show ?thesis
      using here upd
      by (simp add: second_pass_step_def Let_def expected_cell_def expected_delta_def)
  next
    case False
    then have pos: "0 < k" by simp
    show ?thesis
    proof (cases "k = 1")
      case True
      then show ?thesis
        using here before[OF pos] upd
        by (simp add: second_pass_step_def Let_def expected_cell_def expected_delta_def
            count_average)
    next
      case False
      with pos have "2 \<le> k" by simp
      then show ?thesis
        using here before[OF pos] upd pos False
        by (simp add: second_pass_step_def Let_def expected_cell_def expected_delta_def
            count_average)
    qed
  qed
  have "fold second_pass_step [0..<Suc k] (cells, True, False)
      = second_pass_step k (fold second_pass_step [0..<k] (cells, True, False))"
    by simp
  also have "\<dots> = second_pass_step k (?xs @ drop k cells, k = 0, k = 1)"
    using Suc by simp
  also have "\<dots> = (?xs @ expected_cell cells k # drop (Suc k) cells, False, k = 0)"
    by (rule step)
  finally show ?case by auto
qed

lemma second_pass_closed_form:
  "second_pass cells = map (expected_cell cells) [0..<length cells]"
  by (simp add: second_pass_def second_pass_prefix)

text \<open>
  Claim C8: the second pass of the population. For every cell of a line the label and
  the count are kept; a cell with a positive count has its follower, status and retweet
  totals divided by the count, any other cell keeps them; the first cell has delta and
  delta_delta 0; the second cell has the delta \<open>count[1] - count[0]\<close> and delta_delta
  0; every later cell has as delta its count minus the count of its predecessor and as
  delta_delta its delta minus the delta of its predecessor.
\<close>

theorem second_pass_cells:
  "length (second_pass cells) = length cells
   \<and> (\<forall>i < length cells.
        trending (second_pass cells ! i) = trending (cells ! i)
        \<and> count (second_pass cells ! i) = count (cells ! i)
        \<and> (count (cells ! i) > 0 \<longrightarrow>
             avg_followers (second_pass cells ! i) = avg_followers (cells ! i) / count (cells ! i)
             \<and> avg_statuses (second_pass cells ! i) = avg_statuses (cells ! i) / count (cells ! i)
             \<and> retweets (second_pass cells ! i) = retweets (cells ! i) / count (cells ! i))
        \<and> (\<not> count (cells ! i) > 0 \<longrightarrow>
             avg_followers (second_pass cells ! i) = avg_followers (cells ! i)
             \<and> avg_statuses (second_pass cells ! i) = avg_statuses (cells ! i)
             \<and> retweets (second_pass cells ! i) = retweets (cells ! i))
        \<and> (i = 0 \<longrightarrow> delta (second_pass cells ! i) = 0 \<and> delta_delta (second_pass cells ! i) = 0)
        \<and> (i = 1 \<longrightarrow> delta (second_pass cells ! i) = count (cells ! 1) - count (cells ! 0)
                      \<and> delta_delta (second_pass cells ! i) = 0)
        \<and> (i \<ge> 2 \<longrightarrow> delta (second_pass cells ! i) = count (cells ! i) - count (cells ! (i - 1))
                      \<and> delta_delta (second_pass cells ! i)
                          = delta (second_pass cells ! i) - delta (second_pass cells ! (i - 1))))"
  by (simp add: second_pass_closed_form expected_cell_def expected_delta_def average_def)

text \<open>
  The theorem at a line of three cells with the counts 2, 0, 5 and 10 accumulated
  followers in the third cell: its average is 2, its delta 5 and its delta_delta 7.
\<close>

theorem second_pass_cells_witness:
  "(2::nat) < length [(new_cell False)\<lparr>count := 2, avg_followers := 10\<rparr>, new_cell False,
                     (new_cell False)\<lparr>count := 5, avg_followers := 10\<rparr>]
   \<and> avg_followers (second_pass [(new_cell False)\<lparr>count := 2, avg_followers := 10\<rparr>, new_cell False,
                     (new_cell False)\<lparr>count := 5, avg_followers := 10\<rparr>] ! 2) = 2
   \<and> delta (second_pass [(new_cell False)\<lparr>count := 2, avg_followers := 10\<rparr>, new_cell False,
                     (new_cell False)\<lparr>count := 5, avg_followers := 10\<rparr>] ! 2) = 5
   \<and> delta_delta (second_pass [(new_cell False)\<lparr>count := 2, avg_followers := 10\<rparr>, new_cell False,
                     (new_cell False)\<lparr>count := 5, avg_followers := 10\<rparr>] ! 2) = 7"
proof -
  let ?cells = "[(new_cell False)\<lparr>count := 2, avg_followers := 10\<rparr>, new_cell False,
                     (new_cell False)\<lparr>count := 5, avg_followers := 10\<rparr>]"
  note all = second_pass_cells [of ?cells, THEN conjunct2, rule_format]
  have h1: "(1::nat) < length ?cells" and h2: "(2::nat) < length ?cells"
    by simp_all
  show ?thesis
    using all [OF h1] all [OF h2] by (simp add: new_cell_def)
qed

section \<open>The full-warp distance on sequences of equal length\<close>

lemma dtw_column_step_keeps:
  assumes wf: "wf_table n m dtw" and zero: "dtw ! 0 ! 0 = 0"
    and i: "i < n" and n: "length a = n" and m: "length b = m" "0 < m"
  shows "\<exists>dtw'. dtw_column_step a b i dtw = Inr dtw' \<and> wf_table n m dtw' \<and> dtw' ! 0 ! 0 = 0"
proof (cases "i = 0")
  case True
  then show ?thesis using wf zero by (simp add: dtw_column_step_def)
next
  case False
  then have "i - 1 < n" "0 < n" using i by simp_all
  from tset_in_range[OF wf i m(2)]
  obtain dtw' where "tset dtw i 0 (cell_distance (a ! i) (b ! 0) + dtw ! (i - 1) ! 0) = Inr dtw'"
    "wf_table n m dtw'"
    "\<forall>i' < n. \<forall>j' < m. dtw' ! i' ! j'
        = (if i' = i \<and> j' = 0 then cell_distance (a ! i) (b ! 0) + dtw ! (i - 1) ! 0 else dtw ! i' ! j')"
    by blast
  then show ?thesis
    using False i n m wf zero \<open>i - 1 < n\<close> \<open>0 < n\<close>
    by (simp add: dtw_column_step_def item_in_range tget_in_range[OF wf])
qed

lemma dtw_row_step_keeps:
  assumes wf: "wf_table n m dtw" and zero: "dtw ! 0 ! 0 = 0"
    and j: "j < n" and n: "length a = n" and m: "length b = m" "n \<le> m"
  shows "\<exists>dtw'. dtw_row_step a b j dtw = Inr dtw' \<and> wf_table n m dtw' \<and> dtw' ! 0 ! 0 = 0"
proof (cases "j = 0")
  case True
  then show ?thesis using wf zero by (simp add: dtw_row_step_def)
next
  case False
  have jm: "j < m" "j - 1 < m" "0 < n" "0 < m" using j m by simp_all
  from tset_in_range[OF wf \<open>0 < n\<close> \<open>j < m\<close>]
  obtain dtw' where "tset dtw 0 j (cell_distance (a ! 0) (b ! j) + dtw ! 0 ! (j - 1)) = Inr dtw'"
    "wf_table n m dtw'"
    "\<forall>i' < n. \<forall>j' < m. dtw' ! i' ! j'
        = (if i' = 0 \<and> j' = j then cell_distance (a ! 0) (b ! j) + dtw ! 0 ! (j - 1) else dtw ! i' ! j')"
    by blast
  then show ?thesis
    using False n m wf zero jm
    by (simp add: dtw_row_step_def item_in_range tget_in_range[OF wf])
qed

lemma diagonal_cost_Suc:
  "diagonal_cost a b (Suc k) = diagonal_cost a b k + cell_distance (a ! Suc k) (b ! Suc k)"
  by (simp add: diagonal_cost_def)

lemma diagonal_cost_0: "diagonal_cost a b 0 = 0"
  by (simp add: diagonal_cost_def)

lemma dtw_inner_step_keeps:
  assumes inv: "diagonal_bounded a b n i j dtw"
    and i: "0 < i" "i < n" and j: "j < n" and n: "length a = n" "length b = n"
  shows "\<exists>dtw'. dtw_inner_step a b i j dtw = Inr dtw' \<and> diagonal_bounded a b n i (Suc j) dtw'"
proof (cases "j = 0")
  case True
  then show ?thesis
    using inv i by (auto simp: dtw_inner_step_def diagonal_bounded_def)
next
  case False
  from inv have wf: "wf_table n n dtw" and zero: "dtw ! 0 ! 0 = 0"
    and diag: "\<And>k. 1 \<le> k \<Longrightarrow> k < n \<Longrightarrow> k < i \<or> (k = i \<and> k < j) \<Longrightarrow> dtw ! k ! k \<le> diagonal_cost a b k"
    by (auto simp: diagonal_bounded_def)
  let ?v = "cell_distance (a ! i) (b ! j)
      + min (dtw ! (i - 1) ! j) (min (dtw ! i ! (j - 1)) (dtw ! (i - 1) ! (j - 1)))"
  have rng: "i - 1 < n" "j - 1 < n" using i j by simp_all
  from tset_in_range[OF wf i(2) j]
  obtain dtw' where set: "tset dtw i j ?v = Inr dtw'" and wf': "wf_table n n dtw'"
    and entries: "\<And>i' j'. i' < n \<Longrightarrow> j' < n \<Longrightarrow>
        dtw' ! i' ! j' = (if i' = i \<and> j' = j then ?v else dtw ! i' ! j')"
    by blast
  have run: "dtw_inner_step a b i j dtw = Inr dtw'"
    using False i j n rng set
    by (simp add: dtw_inner_step_def item_in_range tget_in_range[OF wf])
  have zero': "dtw' ! 0 ! 0 = 0"
    using entries[of 0 0] i zero by simp
  have "dtw' ! k ! k \<le> diagonal_cost a b k"
    if k: "1 \<le> k" "k < n" "k < i \<or> (k = i \<and> k < Suc j)" for k
  proof (cases "k = i \<and> k = j")
    case True
    then obtain k' where k': "k = Suc k'" using k(1) by (cases k) auto
    have prev: "dtw ! k' ! k' \<le> diagonal_cost a b k'"
    proof (cases "k' = 0")
      case True
      then show ?thesis using zero by (simp add: diagonal_cost_0)
    next
      case False
      then show ?thesis using diag[of k'] k True k' by simp
    qed
    have "dtw' ! k ! k = ?v" using entries[of k k] True k by simp
    also have "\<dots> \<le> cell_distance (a ! i) (b ! j) + dtw ! (i - 1) ! (j - 1)"
      by (simp add: min_le_iff_disj)
    also have "\<dots> \<le> cell_distance (a ! Suc k') (b ! Suc k') + diagonal_cost a b k'"
    proof -
      have "i = Suc k'" "j = Suc k'" using True k' by simp_all
      then show ?thesis using prev by simp
    qed
    finally show ?thesis by (simp add: k' diagonal_cost_Suc)
  next
    case False
    then have "dtw' ! k ! k = dtw ! k ! k" using entries[of k k] k by auto
    moreover have "k < i \<or> (k = i \<and> k < j)" using k(3) False by auto
    ultimately show ?thesis using diag[of k] k by simp
  qed
  with wf' zero' run show ?thesis by (simp add: diagonal_bounded_def)
qed

lemma dtw_outer_step_keeps:
  assumes inv: "diagonal_bounded a b n i 0 dtw"
    and i: "i < n" and n: "length a = n" "length b = n"
  shows "\<exists>dtw'. dtw_outer_step a b i dtw = Inr dtw' \<and> diagonal_bounded a b n (Suc i) 0 dtw'"
proof (cases "i = 0")
  case True
  then show ?thesis using inv by (auto simp: dtw_outer_step_def diagonal_bounded_def)
next
  case False
  then have pos: "0 < i" by simp
  have "\<exists>t. for_each [0..<n] (dtw_inner_step a b i) dtw = Inr t \<and> diagonal_bounded a b n i n t"
    using inv dtw_inner_step_keeps[OF _ pos i _ n]
    by (intro for_each_upt_invariant[where P = "diagonal_bounded a b n i"]) auto
  then obtain t where "for_each [0..<n] (dtw_inner_step a b i) dtw = Inr t"
    "diagonal_bounded a b n i n t" by blast
  then show ?thesis
    using False i n by (auto simp: dtw_outer_step_def diagonal_bounded_def)
qed

lemma dtw_distance_diagonal:
  assumes n: "length a = n" "length b = n" "0 < n"
  shows "\<exists>w. dtw_distance (NdArray a) (NdArray b) = Inr w \<and> w \<le> diagonal_cost a b (n - 1)"
proof -
  obtain t0 where t0: "tset (zeros n n) 0 0 0 = Inr t0" "wf_table n n t0" "t0 ! 0 ! 0 = 0"
    using tset_in_range[OF wf_zeros n(3) n(3), of 0] n(3) by auto
  have "\<exists>t. for_each [0..<n] (dtw_column_step a b) t0 = Inr t \<and> (wf_table n n t \<and> t ! 0 ! 0 = 0)"
    using t0 n dtw_column_step_keeps[where n = n and m = n and a = a and b = b]
    by (intro for_each_upt_invariant[where P = "\<lambda>i t. wf_table n n t \<and> t ! 0 ! 0 = 0"]) auto
  then obtain t1 where t1: "for_each [0..<n] (dtw_column_step a b) t0 = Inr t1"
    "wf_table n n t1" "t1 ! 0 ! 0 = 0" by blast
  have "\<exists>t. for_each [0..<n] (dtw_row_step a b) t1 = Inr t \<and> (wf_table n n t \<and> t ! 0 ! 0 = 0)"
    using t1 n dtw_row_step_keeps[where n = n and m = n and a = a and b = b]
    by (intro for_each_upt_invariant[where P = "\<lambda>i t. wf_table n n t \<and> t ! 0 ! 0 = 0"]) auto
  then obtain t2 where t2: "for_each [0..<n] (dtw_row_step a b) t1 = Inr t2"
    "wf_table n n t2" "t2 ! 0 ! 0 = 0" by blast
  have "\<exists>t. for_each [0..<n] (dtw_outer_step a b) t2 = Inr t \<and> diagonal_bounded a b n n 0 t"
    using t2 dtw_outer_step_keeps[OF _ _ n(1,2)]
    by (intro for_each_upt_invariant[where P = "\<lambda>i. diagonal_bounded a b n i 0"])
      (auto simp: diagonal_bounded_def)
  then obtain t3 where t3: "for_each [0..<n] (dtw_outer_step a b) t2 = Inr t3"
    "diagonal_bounded a b n n 0 t3" by blast
  from t3(2) have wf3: "wf_table n n t3" by (simp add: diagonal_bounded_def)
  have last: "t3 ! (n - 1) ! (n - 1) \<le> diagonal_cost a b (n - 1)"
  proof (cases "n - 1 = 0")
    case True
    then show ?thesis using t3(2) by (simp add: diagonal_bounded_def diagonal_cost_0)
  next
    case False
    then show ?thesis using t3(2) n(3) by (simp add: diagonal_bounded_def)
  qed
  have "dtw_distance (NdArray a) (NdArray b) = Inr (t3 ! (n - 1) ! (n - 1))"
    using t0(1) t1(1) t2(1) t3(1) n tget_in_range[OF wf3, of "n - 1" "n - 1"]
    by (simp add: dtw_distance_def size_attr_def elements_def)
  with last show ?thesis by simp
qed

section \<open>The sliding-offset distance\<close>

lemma fold_add_sum_list:
  "fold (\<lambda>i total. total + f i) xs (acc :: rat) = acc + sum_list (map f xs)"
  by (induction xs arbitrary: acc) (simp_all add: add.assoc)

lemma offset_total_sum:
  "offset_total self other offset
   = (\<Sum>i = 0..<length self. cell_distance (self ! i) (other ! (offset + i)))"
  by (simp add: offset_total_def fold_add_sum_list interv_sum_list_conv_sum_set_nat)

lemma min_over_offsets_equal_length:
  "length self = length other \<Longrightarrow> min_over_offsets self other = Some (offset_total self other 0)"
  by (simp add: min_over_offsets_def)

lemma distance_equal_length:
  "length self = length other \<Longrightarrow> distance self other = Some (offset_total self other 0)"
  by (simp add: distance_def min_over_offsets_equal_length)

lemma offset_total_commute:
  "length self = length other \<Longrightarrow> offset_total self other 0 = offset_total other self 0"
  by (simp add: offset_total_sum cell_distance_commute)

lemma distance_symmetric: "distance x y = distance y x"
proof (cases "length x = length y")
  case True
  then show ?thesis
    by (simp add: distance_equal_length offset_total_commute)
next
  case False
  then show ?thesis by (auto simp: distance_def)
qed

lemma diagonal_cost_le_offset_total:
  assumes "length a = n" "0 < n"
  shows "diagonal_cost a b (n - 1) \<le> offset_total a b 0"
proof -
  obtain k where k: "n = Suc k" using assms(2) by (cases n) auto
  have "offset_total a b 0 = (\<Sum>i = 0..<Suc k. cell_distance (a ! i) (b ! i))"
    using assms(1) k by (simp add: offset_total_sum)
  also have "\<dots> = cell_distance (a ! 0) (b ! 0) + (\<Sum>i = Suc 0..<Suc k. cell_distance (a ! i) (b ! i))"
    by (simp add: sum.atLeast_Suc_lessThan)
  also have "(\<Sum>i = Suc 0..<Suc k. cell_distance (a ! i) (b ! i)) = diagonal_cost a b k"
    by (simp add: diagonal_cost_def atLeastLessThanSuc_atLeastAtMost)
  finally show ?thesis
    using cell_distance_nonneg[of "a ! 0" "b ! 0"] k by simp
qed

text \<open>
  Claim C5, amended: for two non-empty cell sequences of equal length that are passed
  as numpy arrays, \<open>dtw_distance\<close> returns a number, and that number is at most the
  sliding-offset distance of the two sequences.
\<close>

theorem dtw_below_sliding_equal_length:
  assumes "length x = length y" and "x \<noteq> []"
  shows "\<exists>w s. dtw_distance (NdArray x) (NdArray y) = Inr w \<and> distance x y = Some s \<and> w \<le> s"
proof -
  have pos: "0 < length x" using assms(2) by simp
  from dtw_distance_diagonal[OF refl assms(1)[symmetric] pos]
  obtain w where w: "dtw_distance (NdArray x) (NdArray y) = Inr w"
    "w \<le> diagonal_cost x y (length x - 1)"
    by blast
  have "diagonal_cost x y (length x - 1) \<le> offset_total x y 0"
    by (rule diagonal_cost_le_offset_total[OF refl pos])
  with w distance_equal_length[OF assms(1)] show ?thesis by auto
qed

text \<open>The theorem at two arrays of two cells each.\<close>

theorem dtw_below_sliding_equal_length_witness:
  "length [new_cell False, (new_cell False)\<lparr>count := 3\<rparr>]
     = length [(new_cell False)\<lparr>count := 1\<rparr>, new_cell True]
   \<and> [new_cell False, (new_cell False)\<lparr>count := 3\<rparr>] \<noteq> []
   \<and> (\<exists>w s. dtw_distance (NdArray [new_cell False, (new_cell False)\<lparr>count := 3\<rparr>])
                (NdArray [(new_cell False)\<lparr>count := 1\<rparr>, new_cell True]) = Inr w
           \<and> distance [new_cell False, (new_cell False)\<lparr>count := 3\<rparr>]
                [(new_cell False)\<lparr>count := 1\<rparr>, new_cell True] = Some s
           \<and> w \<le> s)"
  using dtw_below_sliding_equal_length
    [of "[new_cell False, (new_cell False)\<lparr>count := 3\<rparr>]"
        "[(new_cell False)\<lparr>count := 1\<rparr>, new_cell True]"]
  by simp

section \<open>The positive lines of the construction pipeline\<close>

lemma for_each_invariant:
  assumes "P s" and "\<And>x t. P t \<Longrightarrow> \<exists>t'. body x t = Inr t' \<and> P t'"
  shows "\<exists>t. for_each xs body s = Inr t \<and> P t"
  using assms(1)
proof (induction xs arbitrary: s)
  case Nil
  then show ?case by simp
next
  case (Cons x xs)
  from assms(2)[OF Cons.prems] obtain t' where "body x s = Inr t'" "P t'" by blast
  with Cons.IH[of t'] show ?case by simp
qed

lemma run_step_ok: "run_ok s \<Longrightarrow> \<exists>s'. run_step window ts s = Inr s' \<and> run_ok s'"
  by (cases "start_consecutive s"; cases "last_timestamp s")
    (auto simp: run_step_def run_ok_def)

lemma from_twitter_trend_returns:
  "\<exists>line. from_twitter_trend twitter_trend window = Inr line
     \<and> name line = trend_name twitter_trend \<and> window_size line = window
     \<and> (start_ts line = None \<longrightarrow> data line = [])"
proof -
  have "run_ok run_init" by (simp add: run_ok_def run_init_def)
  then have "\<exists>s. for_each (timestamps twitter_trend) (run_step window) run_init = Inr s
      \<and> run_ok s"
    by (rule for_each_invariant) (rule run_step_ok)
  then obtain s where "for_each (timestamps twitter_trend) (run_step window) run_init = Inr s" "run_ok s"
    by blast
  then show ?thesis by (auto simp: from_twitter_trend_def run_ok_def)
qed

lemma map_err_returns:
  assumes "\<And>x. x \<in> set xs \<Longrightarrow> \<exists>y. f x = Inr y \<and> P x y"
  shows "\<exists>ys. map_err f xs = Inr ys \<and> list_all2 P xs ys"
  using assms
proof (induction xs)
  case Nil
  then show ?case by simp
next
  case (Cons x xs)
  then obtain y ys where "f x = Inr y" "P x y" "map_err f xs = Inr ys" "list_all2 P xs ys"
    by (metis list.set_intros)
  then show ?case by simp
qed

lemma derive_positive_returns:
  "\<exists>ps. derive_positive twitter_trends = Inr ps
     \<and> (\<forall>p \<in> set ps. start_ts p = None \<longrightarrow> data p = [])"
proof -
  have "\<exists>ps. map_err (\<lambda>trend. from_twitter_trend trend 120) twitter_trends = Inr ps
      \<and> list_all2 (\<lambda>trend line. start_ts line = None \<longrightarrow> data line = []) twitter_trends ps"
  proof (rule map_err_returns)
    fix x
    from from_twitter_trend_returns[of x 120]
    obtain line where "from_twitter_trend x 120 = Inr line" "start_ts line = None \<longrightarrow> data line = []"
      by auto
    then show "\<exists>y. from_twitter_trend x 120 = Inr y \<and> (start_ts y = None \<longrightarrow> data y = [])"
      by simp
  qed
  then show ?thesis
    by (auto simp: derive_positive_def list_all2_conv_all_nth in_set_conv_nth)
qed

lemma preempt_padded: "start_ts p = Some s \<Longrightarrow> \<exists>r. preempt p = Inr r \<and> padded p r"
  by (simp add: preempt_def padded_def TREND_PREEMT_def new_cell_def)

text \<open>
  Claim C7: in the construction pipeline the derived positive lines with fewer than 15
  cells are dropped, and every remaining line, in order, gets 90 cells with the label
  false and all features zero in front of its own cells, keeps its name and window
  size, and has its \<open>start_ts\<close> decreased by \<open>window_size * 90\<close>. The pipeline
  raises no exception on the way.
\<close>

theorem positive_lines_dropped_and_padded:
  "\<exists>ps rs. derive_positive twitter_trends = Inr ps \<and> positive_lines twitter_trends = Inr rs
     \<and> length rs = length (filter (\<lambda>p. 15 \<le> length (data p)) ps)
     \<and> (\<forall>k < length rs.
          data (rs ! k) = replicate 90 \<lparr>trending = False, count = 0, delta = 0, delta_delta = 0,
                             avg_followers = 0, avg_statuses = 0, retweets = 0\<rparr>
                           @ data (filter (\<lambda>p. 15 \<le> length (data p)) ps ! k)
          \<and> name (rs ! k) = name (filter (\<lambda>p. 15 \<le> length (data p)) ps ! k)
          \<and> window_size (rs ! k) = window_size (filter (\<lambda>p. 15 \<le> length (data p)) ps ! k)
          \<and> (\<exists>s. start_ts (filter (\<lambda>p. 15 \<le> length (data p)) ps ! k) = Some s
                \<and> start_ts (rs ! k)
                    = Some (s - window_size (filter (\<lambda>p. 15 \<le> length (data p)) ps ! k) * 90)))"
proof -
  from derive_positive_returns obtain ps where ps: "derive_positive twitter_trends = Inr ps"
    "\<forall>p \<in> set ps. start_ts p = None \<longrightarrow> data p = []" by blast
  let ?kept = "filter (\<lambda>p. 15 \<le> length (data p)) ps"
  have kept: "remove_short ps = ?kept"
    by (simp add: remove_short_def MINIMUM_TREND_SIZE_def)
  have "\<exists>r. preempt p = Inr r \<and> padded p r" if "p \<in> set ?kept" for p
  proof -
    from that ps(2) have "start_ts p \<noteq> None" by auto
    then show ?thesis using preempt_padded by blast
  qed
  then have "\<exists>rs. map_err preempt ?kept = Inr rs \<and> list_all2 padded ?kept rs"
    by (intro map_err_returns) blast
  then obtain rs where rs: "map_err preempt ?kept = Inr rs" "list_all2 padded ?kept rs"
    by blast
  have run: "positive_lines twitter_trends = Inr rs"
    using ps(1) rs(1) kept by (simp add: positive_lines_def)
  have len: "length rs = length ?kept"
    using rs(2) by (simp add: list_all2_lengthD)
  have "padded (?kept ! k) (rs ! k)" if "k < length rs" for k
    using rs(2) that len by (simp add: list_all2_nthD2)
  then show ?thesis
    using ps(1) run len unfolding padded_def by blast
qed

text \<open>
  The theorem at two trends: one announced in 15 consecutive windows and once more
  later, which is kept and padded to 105 cells, and one announced in 3 consecutive
  windows and once more later, which is dropped.
\<close>

theorem positive_lines_dropped_and_padded_witness:
  "\<exists>rs. positive_lines
      [\<lparr>trend_name = ''a'', timestamps = [0, 120, 240, 360, 480, 600, 720, 840, 960, 1080,
          1200, 1320, 1440, 1560, 1680, 5000]\<rparr>,
       \<lparr>trend_name = ''b'', timestamps = [0, 120, 240, 1000]\<rparr>] = Inr rs
     \<and> length rs = 1 \<and> (0::nat) < length rs \<and> name (rs ! 0) = ''a''
     \<and> length (data (rs ! 0)) = 105 \<and> start_ts (rs ! 0) = Some (- 10800)"
proof -
  let ?tts = "[\<lparr>trend_name = ''a'', timestamps = [0, 120, 240, 360, 480, 600, 720, 840, 960, 1080,
          1200, 1320, 1440, 1560, 1680, 5000]\<rparr>,
       \<lparr>trend_name = ''b'', timestamps = [0, 120, 240, 1000]\<rparr>]"
  let ?A = "\<lparr>name = ''a'', start_ts = Some 0, data = replicate 15 (new_cell True),
       window_size = 120\<rparr>"
  let ?B = "\<lparr>name = ''b'', start_ts = Some 0, data = replicate 3 (new_cell True),
       window_size = 120\<rparr>"
  have derived: "derive_positive ?tts = Inr [?A, ?B]"
    by code_simp
  have kept: "filter (\<lambda>p. 15 \<le> length (data p)) [?A, ?B] = [?A]"
    by simp
  from positive_lines_dropped_and_padded [of ?tts] derived kept
  obtain rs where rs: "positive_lines ?tts = Inr rs" "length rs = 1"
    "\<forall>k < length rs.
        data (rs ! k) = replicate 90 \<lparr>trending = False, count = 0, delta = 0, delta_delta = 0,
                           avg_followers = 0, avg_statuses = 0, retweets = 0\<rparr> @ data ([?A] ! k)
        \<and> name (rs ! k) = name ([?A] ! k)
        \<and> window_size (rs ! k) = window_size ([?A] ! k)
        \<and> (\<exists>s. start_ts ([?A] ! k) = Some s
              \<and> start_ts (rs ! k) = Some (s - window_size ([?A] ! k) * 90))"
    by auto
  from rs(2) have pos: "0 < length rs" by simp
  with rs(3) have "data (rs ! 0) = replicate 90 \<lparr>trending = False, count = 0, delta = 0,
        delta_delta = 0, avg_followers = 0, avg_statuses = 0, retweets = 0\<rparr> @ data ?A"
    "name (rs ! 0) = ''a''" "start_ts (rs ! 0) = Some (- 10800)"
    by auto
  with rs(1,2) pos show ?thesis by auto
qed

end
